theory Spec2Isabelle
  imports Complex_Main
begin

section \<open>The diagnostic harness \<^verbatim>\<open>debug.py\<close>\<close>

text \<open>
  \<^verbatim>\<open>debug.py\<close> attaches to a running process through the Frida instrumentation
  library, injects a script wrapped in a reporting shell, logs the messages the script
  sends back, waits, and detaches. The program is a linear sequence of calls into
  libraries, each of which either returns or raises. The embedding makes the three
  things the Python leaves implicit explicit:
  \<^item> the outside world is a record \<open>env\<close> that says, for every library call the program
    makes, whether it returns or which exception it raises;
  \<^item> the side effects are a trace, the list of the library calls made and of the log
    records written, in program order;
  \<^item> an exception is a value: a function that may raise returns \<open>exn + 'a\<close> or an
    \<open>exn option\<close> beside its trace.

  Formatting a value into a log text and writing a log record do not raise.
\<close>

subsection \<open>Python values\<close>

text \<open>
  A Python \<^verbatim>\<open>str\<close> is the list of its Unicode code points. The program only compares,
  concatenates and formats strings. \<open>ascii\<close> turns an ASCII literal into such a list;
  the Chinese characters of the log texts are written as their code points.
\<close>

type_synonym pystr = "nat list"

definition ascii :: "string \<Rightarrow> pystr" where
  "ascii s = map of_char s"

text \<open>
  The values a message delivered by Frida is built from (the image of a JSON document;
  numbers are restricted to integers), and any other object a caller may hand to the
  callback in its place. A dictionary is the list of its items, with string keys.
\<close>

datatype pyval =
    PNone
  | PBool bool
  | PInt int
  | PStr pystr
  | PList "pyval list"
  | PDict "(pystr \<times> pyval) list"

text \<open>
  A Python \<^verbatim>\<open>float\<close>, as far as \<^verbatim>\<open>time.sleep\<close> tells floats apart: a finite float is
  the rational number it denotes.
\<close>

datatype pyfloat = Finite rat | PosInf | NegInf | NaN

text \<open>
  The exceptions: instances of subclasses of \<^verbatim>\<open>Exception\<close>, which is what the library
  calls of the program raise and what its handlers (\<^verbatim>\<open>except Exception\<close>) catch.
  \<open>ProcessNotFoundError\<close> is \<^verbatim>\<open>frida.ProcessNotFoundError\<close>; \<open>OtherException s\<close> is an
  exception of any other class, named by a text. Asynchronous interrupts
  (\<^verbatim>\<open>KeyboardInterrupt\<close>, \<^verbatim>\<open>SystemExit\<close>) are not \<^verbatim>\<open>Exception\<close>s and are outside this model.
\<close>

datatype exn =
    ProcessNotFoundError
  | AttributeError
  | TypeError
  | ValueError
  | OverflowError
  | OtherException pystr

subsection \<open>Log records and the trace\<close>

text \<open>
  The text of a log record is the list of the pieces its f-string or concatenation is
  made of: literal text, or a value, an exception or a float formatted by Python's
  \<^verbatim>\<open>str\<close>. \<open>render\<close> produces the final string for given formatting functions, which are
  a parameter: the program's behaviour does not depend on them.
\<close>

datatype piece =
    Lit pystr
  | FmtVal pyval
  | FmtExn exn
  | FmtFloat pyfloat

datatype level = INFO | ERROR

record formatter =
  str_val :: "pyval \<Rightarrow> pystr"
  str_exn :: "exn \<Rightarrow> pystr"
  str_float :: "pyfloat \<Rightarrow> pystr"

fun render_piece :: "formatter \<Rightarrow> piece \<Rightarrow> pystr" where
  "render_piece f (Lit s) = s"
| "render_piece f (FmtVal v) = str_val f v"
| "render_piece f (FmtExn e) = str_exn f e"
| "render_piece f (FmtFloat x) = str_float f x"

definition render :: "formatter \<Rightarrow> piece list \<Rightarrow> pystr" where
  "render f ps = concat (map (render_piece f) ps)"

text \<open>
  The events of a run: a log record, or a call into a library. \<open>OpenRead p\<close> is the
  \<^verbatim>\<open>with open(p) as f: f.read()\<close> block, \<open>CreateScript src\<close> is
  \<^verbatim>\<open>session.create_script(src)\<close>, \<open>On\<close> is \<^verbatim>\<open>script.on("message", _on_message)\<close>,
  \<open>ExportsSync\<close> a read of \<^verbatim>\<open>script.exports_sync\<close>, \<open>GetattrDecrypt\<close> the
  \<^verbatim>\<open>getattr(..., "decrypt")\<close>.
\<close>

datatype event =
    Log level "piece list"
  | Attach pystr
  | OpenRead pystr
  | CreateScript pystr
  | On
  | Load
  | ExportsSync
  | GetattrDecrypt
  | Sleep pyfloat
  | Detach

subsection \<open>The message sink \<^verbatim>\<open>_on_message\<close>\<close>

text \<open>Python truthiness, as \<^verbatim>\<open>if stack:\<close> and \<^verbatim>\<open>desc or ""\<close> test it.\<close>

fun truthy :: "pyval \<Rightarrow> bool" where
  "truthy PNone = False"
| "truthy (PBool b) = b"
| "truthy (PInt n) = (n \<noteq> 0)"
| "truthy (PStr s) = (s \<noteq> [])"
| "truthy (PList xs) = (xs \<noteq> [])"
| "truthy (PDict kvs) = (kvs \<noteq> [])"

text \<open>
  \<^verbatim>\<open>message.get(k)\<close>: the value under \<open>k\<close>, \<^verbatim>\<open>None\<close> when the key is missing; an object
  that is not a dictionary has no method \<^verbatim>\<open>get\<close> and the call raises \<^verbatim>\<open>AttributeError\<close>.
\<close>

definition dict_get :: "pyval \<Rightarrow> pystr \<Rightarrow> exn + pyval" where
  "dict_get d k =
     (case d of
        PDict kvs \<Rightarrow> Inr (case map_of kvs k of None \<Rightarrow> PNone | Some v \<Rightarrow> v)
      | _ \<Rightarrow> Inl AttributeError)"

text \<open>\<^verbatim>\<open>a or b\<close>.\<close>

definition py_or :: "pyval \<Rightarrow> pyval \<Rightarrow> pyval" where
  "py_or a b = (if truthy a then a else b)"

text \<open>\<^verbatim>\<open>s + v\<close> for a string \<open>s\<close>: concatenation, \<^verbatim>\<open>TypeError\<close> unless \<open>v\<close> is a string.\<close>

definition str_add :: "pystr \<Rightarrow> pyval \<Rightarrow> exn + pystr" where
  "str_add s v = (case v of PStr t \<Rightarrow> Inr (s @ t) | _ \<Rightarrow> Inl TypeError)"

text \<open>
  The literal of the handler's f-string: six Chinese characters around \<^verbatim>\<open> JS \<close>
  ("parsing the JS message failed"), then \<^verbatim>\<open>: \<close>.
\<close>

definition msg_parse_failed :: pystr where
  "msg_parse_failed =
     [0x89E3, 0x6790] @ ascii '' JS '' @ [0x6D88, 0x606F, 0x5931, 0x8D25] @ ascii '': ''"

text \<open>
  The body of the \<^verbatim>\<open>try\<close> of \<^verbatim>\<open>_on_message\<close> (lines 17 to 29): the log records written
  and the exception that ended it, if any.
\<close>

definition on_message_try :: "pyval \<Rightarrow> event list \<times> exn option" where
  "on_message_try message =
     (case dict_get message (ascii ''type'') of
        Inl e \<Rightarrow> ([], Some e)
      | Inr mtype \<Rightarrow>
          if mtype = PStr (ascii ''send'') then
            (case dict_get message (ascii ''payload'') of
               Inl e \<Rightarrow> ([], Some e)
             | Inr payload \<Rightarrow>
                 ([Log INFO [Lit (ascii ''[JS send] ''), FmtVal payload]], None))
          else if mtype = PStr (ascii ''error'') then
            (case dict_get message (ascii ''description'') of
               Inl e \<Rightarrow> ([], Some e)
             | Inr desc \<Rightarrow>
            (case dict_get message (ascii ''stack'') of
               Inl e \<Rightarrow> ([], Some e)
             | Inr stack \<Rightarrow>
            (case str_add (ascii ''[JS error] '') (py_or desc (PStr [])) of
               Inl e \<Rightarrow> ([], Some e)
             | Inr line \<Rightarrow>
                 if truthy stack then
                   (case str_add (ascii ''[JS stack]'' @ [10]) stack of
                      Inl e \<Rightarrow> ([Log ERROR [Lit line]], Some e)
                    | Inr line2 \<Rightarrow>
                        ([Log ERROR [Lit line], Log ERROR [Lit line2]], None))
                 else ([Log ERROR [Lit line]], None))))
          else ([Log INFO [Lit (ascii ''[JS message] ''), FmtVal message]], None))"

text \<open>
  \<^verbatim>\<open>_on_message(message, data)\<close>: the \<^verbatim>\<open>try\<close> and its handler
  \<^verbatim>\<open>except Exception as e\<close>, which logs the exception. The second component is the
  exception that leaves the function.
\<close>

definition on_message :: "pyval \<Rightarrow> pyval \<Rightarrow> event list \<times> exn option" where
  "on_message message data =
     (case on_message_try message of
        (logs, None) \<Rightarrow> (logs, None)
      | (logs, Some e) \<Rightarrow> (logs @ [Log ERROR [Lit msg_parse_failed, FmtExn e]], None))"

subsection \<open>The outside world\<close>

text \<open>
  What each library call of \<^verbatim>\<open>run_diag\<close> does in one run: \<open>None\<close> (or \<open>Inr\<close>) when it
  returns, \<open>Some e\<close> (or \<open>Inl e\<close>) when it raises \<open>e\<close>.
  \<^item> \<open>path_exists\<close> is \<^verbatim>\<open>os.path.exists\<close>;
  \<^item> \<open>abspath\<close> is \<^verbatim>\<open>os.path.abspath\<close>, which asks for the working directory when the
    path is relative and raises (\<^verbatim>\<open>FileNotFoundError\<close>) when that directory is gone;
  \<^item> \<open>attach\<close> is \<^verbatim>\<open>frida.attach\<close>; the session it returns is the only one of the run;
  \<^item> \<open>read_text\<close> is the \<^verbatim>\<open>with open(js_path, "r", encoding="utf-8") as f: f.read()\<close>
    block: the text of the file, or the exception of \<^verbatim>\<open>open\<close> or of \<^verbatim>\<open>read\<close>;
  \<^item> \<open>now_isoformat\<close> is \<^verbatim>\<open>datetime.now().isoformat()\<close>;
  \<^item> \<open>create_script\<close>, \<open>script_on\<close>, \<open>script_load\<close> are the three calls on the session
    and the script;
  \<^item> \<open>exports_sync\<close> and \<open>exports_sync_again\<close> are the two reads of
    \<^verbatim>\<open>script.exports_sync\<close> (lines 98 and 101), \<open>getattr_decrypt\<close> the \<^verbatim>\<open>getattr\<close> of
    line 101;
  \<^item> \<open>detach\<close> is \<^verbatim>\<open>session.detach()\<close>;
  \<^item> \<open>sleep_rejects\<close> and \<open>sleep_outcome\<close> are \<^verbatim>\<open>time.sleep\<close>, see below.
\<close>

record env =
  path_exists :: "pystr \<Rightarrow> bool"
  abspath :: "pystr \<Rightarrow> exn + pystr"
  attach :: "pystr \<Rightarrow> exn option"
  read_text :: "pystr \<Rightarrow> exn + pystr"
  now_isoformat :: pystr
  create_script :: "pystr \<Rightarrow> exn option"
  script_on :: "exn option"
  script_load :: "exn option"
  exports_sync :: "exn option"
  exports_sync_again :: "exn option"
  getattr_decrypt :: "exn option"
  detach :: "exn option"
  sleep_rejects :: "pyfloat \<Rightarrow> exn"
  sleep_outcome :: "pyfloat \<Rightarrow> exn option"

text \<open>A negative float: a negative finite one, or minus infinity.\<close>

definition is_negative :: "pyfloat \<Rightarrow> bool" where
  "is_negative x = (case x of Finite q \<Rightarrow> q < 0 | NegInf \<Rightarrow> True | _ \<Rightarrow> False)"

text \<open>
  \<^verbatim>\<open>time.sleep(secs)\<close> for a float. A negative argument is always rejected with an
  exception: \<^verbatim>\<open>ValueError\<close> ("sleep length must be non-negative"), or \<^verbatim>\<open>OverflowError\<close>
  when the number is beyond the range of the clock; where the one ends and the other
  begins depends on the platform, so the exception is the world's \<open>sleep_rejects\<close>. For
  any other argument the world's \<open>sleep_outcome\<close> says whether the call returns after the
  delay or raises (\<^verbatim>\<open>NaN\<close>, an infinite wait, a wait too long for the platform).
\<close>

definition time_sleep :: "env \<Rightarrow> pyfloat \<Rightarrow> exn option" where
  "time_sleep env secs =
     (if is_negative secs then Some (sleep_rejects env secs) else sleep_outcome env secs)"

subsection \<open>The wrapping step\<close>

text \<open>Lines of text joined by newlines (code point 10).\<close>

fun join_lines :: "pystr list \<Rightarrow> pystr" where
  "join_lines [] = []"
| "join_lines [l] = l"
| "join_lines (l # ls) = l @ [10] @ join_lines ls"

text \<open>
  The f-string of lines 57 to 81: the text before the timestamp, the text between the
  timestamp and the script body, and the text after the body. The doubled braces of the
  f-string are single braces of the result; the three comment lines of the JavaScript
  are Chinese.
\<close>

definition wrapper_head :: pystr where
  \<open>wrapper_head = join_lines
     [[],
      ascii ''        (function() {'',
      ascii ''          try {'',
      ascii ''            send({"stage":"boot","time":"'']\<close>

definition wrapper_middle :: pystr where
  \<open>wrapper_middle = join_lines
     [ascii ''","msg":"js wrapper entered"});'',
      [],
      ascii ''            '']\<close>

definition wrapper_tail :: pystr where
  \<open>wrapper_tail = join_lines
     [[],
      [],
      ascii ''            // '' @ [0x5982, 0x679C, 0x80FD, 0x8FD0, 0x884C, 0x5230, 0x8FD9,
        0x91CC, 0xFF0C, 0x8BF4, 0x660E, 0x811A, 0x672C, 0x9876, 0x5C42, 0x6CA1, 0x6709,
        0x5D29],
      ascii ''            send({"stage":"boot","msg":"js wrapper finished (top-level ok)"});'',
      [],
      ascii ''            // '' @ [0x5C1D, 0x8BD5, 0x5728] @ ascii '' JS '' @
        [0x4FA7, 0x786E, 0x8BA4] @ ascii '' rpc.exports '' @
        [0x662F, 0x5426, 0x5B58, 0x5728] @ ascii '' decrypt'',
      ascii ''            try {'',
      ascii ''              var hasDecrypt = (typeof rpc !== "undefined") && rpc.exports && (typeof rpc.exports.decrypt === "function");'',
      ascii ''              send({"stage":"exports","hasDecrypt":hasDecrypt, "exportKeys": rpc && rpc.exports ? Object.keys(rpc.exports) : null });'',
      ascii ''            } catch (e) {'',
      ascii ''              send({"stage":"exports","error": String(e)})'',
      ascii ''            }'',
      [],
      ascii ''          } catch (e) {'',
      ascii ''            // '' @ [0x9876, 0x5C42, 0x5F02, 0x5E38, 0x4F1A, 0x76F4, 0x63A5,
        0x5BFC, 0x81F4] @ ascii '' rpc.exports '' @ [0x672A, 0x6CE8, 0x518C, 0xFF0C,
        0x8FD9, 0x5C31, 0x662F, 0x4F60, 0x5F53, 0x524D, 0x75C7, 0x72B6, 0x7684, 0x6700,
        0x5E38, 0x89C1, 0x6839, 0x56E0],
      ascii ''            send({"stage":"fatal","error": String(e), "stack": e && e.stack ? String(e.stack) : null });'',
      ascii ''            throw e;'',
      ascii ''          }'',
      ascii ''        })();'',
      ascii ''        '']\<close>

definition wrapped_js :: "pystr \<Rightarrow> pystr \<Rightarrow> pystr" where
  "wrapped_js now raw_js = wrapper_head @ now @ wrapper_middle @ raw_js @ wrapper_tail"

subsection \<open>The diagnostic run \<^verbatim>\<open>run_diag\<close>\<close>

text \<open>
  The literals of the log texts, in the order of the source (lines 40, 46, 49, 87, 102,
  105, 107, 109 and 117). In English: "script file not found: "; "process not found "
  and ", start the target program first and then run --diag"; "attach failed: ";
  "loading/running the script failed: "; "Python side: found exports_sync.decrypt (but
  only hasDecrypt=true on the JS side counts as registered)"; "Python side: cannot get
  exports_sync.decrypt: "; "Python side: exports_sync unavailable (most likely rpc is
  not registered): "; "diagnostic mode waits " and " seconds to collect JS messages...";
  "diagnosis finished. Please send me the console output (above all [JS error]/[JS
  send] stage=fatal/exports)."
\<close>

definition msg_script_missing :: pystr where
  "msg_script_missing =
     [0x627E, 0x4E0D, 0x5230, 0x811A, 0x672C, 0x6587, 0x4EF6] @ ascii '': ''"

definition msg_process_not_found :: pystr where
  "msg_process_not_found = [0x672A, 0x627E, 0x5230, 0x8FDB, 0x7A0B] @ ascii '' ''"

definition msg_start_target_first :: pystr where
  "msg_start_target_first =
     [0xFF0C, 0x8BF7, 0x5148, 0x542F, 0x52A8, 0x76EE, 0x6807, 0x7A0B, 0x5E8F, 0x540E,
      0x518D, 0x8FD0, 0x884C] @ ascii '' --diag''"

definition msg_attach_failed :: pystr where
  "msg_attach_failed = ascii ''attach '' @ [0x5931, 0x8D25] @ ascii '': ''"

definition msg_load_failed :: pystr where
  "msg_load_failed =
     [0x52A0, 0x8F7D] @ ascii ''/'' @ [0x8FD0, 0x884C, 0x811A, 0x672C, 0x5931, 0x8D25] @
     ascii '': ''"

definition msg_found_decrypt :: pystr where
  "msg_found_decrypt =
     ascii ''Python '' @ [0x4FA7, 0xFF1A, 0x627E, 0x5230] @
     ascii '' exports_sync.decrypt'' @ [0xFF08, 0x4F46, 0x4ECD, 0x9700, 0x770B] @
     ascii '' JS '' @ [0x4FA7] @ ascii '' hasDecrypt=true '' @
     [0x624D, 0x7B97, 0x771F, 0x6CE8, 0x518C, 0xFF09]"

definition msg_no_decrypt :: pystr where
  "msg_no_decrypt =
     ascii ''Python '' @ [0x4FA7, 0xFF1A, 0x65E0, 0x6CD5, 0x83B7, 0x53D6] @
     ascii '' exports_sync.decrypt: ''"

definition msg_exports_unavailable :: pystr where
  "msg_exports_unavailable =
     ascii ''Python '' @ [0x4FA7, 0xFF1A] @ ascii ''exports_sync '' @
     [0x4E0D, 0x53EF, 0x7528, 0xFF08, 0x591A, 0x534A] @ ascii '' rpc '' @
     [0x672A, 0x6CE8, 0x518C, 0xFF09] @ ascii '': ''"

definition msg_waiting :: pystr where
  "msg_waiting = [0x8BCA, 0x65AD, 0x6A21, 0x5F0F, 0x7B49, 0x5F85] @ ascii '' ''"

definition msg_seconds :: pystr where
  "msg_seconds =
     ascii '' '' @ [0x79D2, 0x6536, 0x96C6] @ ascii '' JS '' @ [0x6D88, 0x606F] @
     ascii ''...''"

definition msg_finished :: pystr where
  "msg_finished =
     [0x8BCA, 0x65AD, 0x7ED3, 0x675F, 0x3002, 0x8BF7, 0x628A, 0x63A7, 0x5236, 0x53F0,
      0x8F93, 0x51FA, 0xFF08, 0x5C24, 0x5176, 0x662F] @
     ascii '' [JS error]/[JS send] stage=fatal/exports'' @
     [0xFF09, 0x53D1, 0x6211, 0x3002]"

text \<open>
  The \<^verbatim>\<open>try\<close> of lines 53 to 85: read the file, wrap the text, create the script,
  register the callback, load the script. The result is the calls made and the
  exception that ended the block, if any.
\<close>

definition load_script :: "env \<Rightarrow> pystr \<Rightarrow> event list \<times> exn option" where
  "load_script env js_path =
     (case read_text env js_path of
        Inl e \<Rightarrow> ([OpenRead js_path], Some e)
      | Inr raw_js \<Rightarrow>
          (let src = wrapped_js (now_isoformat env) raw_js in
           case create_script env src of
             Some e \<Rightarrow> ([OpenRead js_path, CreateScript src], Some e)
           | None \<Rightarrow>
          (case script_on env of
             Some e \<Rightarrow> ([OpenRead js_path, CreateScript src, On], Some e)
           | None \<Rightarrow>
          (case script_load env of
             Some e \<Rightarrow> ([OpenRead js_path, CreateScript src, On, Load], Some e)
           | None \<Rightarrow> ([OpenRead js_path, CreateScript src, On, Load], None)))))"

text \<open>
  \<^verbatim>\<open>try: session.detach() except Exception: pass\<close> (lines 88 to 91 and 112 to 115):
  the call is made, and whatever it raises is dropped.
\<close>

definition detach_quietly :: "env \<Rightarrow> event list \<times> exn option" where
  "detach_quietly env =
     (case detach env of
        None \<Rightarrow> ([Detach], None)
      | Some e \<Rightarrow> ([Detach], None))"

text \<open>
  The probe of lines 96 to 107, two nested \<^verbatim>\<open>try\<close> blocks whose handlers log: nothing
  it raises leaves it.
\<close>

definition probe_exports :: "env \<Rightarrow> event list \<times> exn option" where
  "probe_exports env =
     (case exports_sync env of
        Some e \<Rightarrow>
          ([ExportsSync, Log ERROR [Lit msg_exports_unavailable, FmtExn e]], None)
      | None \<Rightarrow>
     (case exports_sync_again env of
        Some e \<Rightarrow>
          ([ExportsSync, ExportsSync, Log ERROR [Lit msg_no_decrypt, FmtExn e]], None)
      | None \<Rightarrow>
     (case getattr_decrypt env of
        Some e \<Rightarrow>
          ([ExportsSync, ExportsSync, GetattrDecrypt,
            Log ERROR [Lit msg_no_decrypt, FmtExn e]], None)
      | None \<Rightarrow>
          ([ExportsSync, ExportsSync, GetattrDecrypt,
            Log INFO [Lit msg_found_decrypt]], None))))"

text \<open>
  \<^verbatim>\<open>run_diag(process_name, js_path, wait_seconds)\<close>: the trace of the run, and either the
  exit status it returns (\<open>Inr\<close>) or the exception that leaves it (\<open>Inl\<close>). Two calls stand
  outside every \<^verbatim>\<open>try\<close>: the \<^verbatim>\<open>os.path.abspath\<close> in the log text of line 40 and the
  \<^verbatim>\<open>time.sleep\<close> of line 110; what they raise leaves the function.
\<close>

definition run_diag :: "env \<Rightarrow> pystr \<Rightarrow> pystr \<Rightarrow> pyfloat \<Rightarrow> event list \<times> (exn + int)" where
  "run_diag env process_name js_path wait_seconds =
     (if \<not> path_exists env js_path then
        (case abspath env js_path of
           Inl e \<Rightarrow> ([], Inl e)
         | Inr path \<Rightarrow> ([Log ERROR [Lit msg_script_missing, Lit path]], Inr 2))
      else
        case attach env process_name of
          Some e \<Rightarrow>
            if e = ProcessNotFoundError then
              ([Attach process_name,
                Log ERROR [Lit msg_process_not_found, Lit process_name,
                           Lit msg_start_target_first]],
               Inr 2)
            else
              ([Attach process_name, Log ERROR [Lit msg_attach_failed, FmtExn e]], Inr 2)
        | None \<Rightarrow>
            (case load_script env js_path of
               (loading, Some e) \<Rightarrow>
                 ([Attach process_name] @ loading @
                  [Log ERROR [Lit msg_load_failed, FmtExn e]] @
                  fst (detach_quietly env),
                  case snd (detach_quietly env) of Some e' \<Rightarrow> Inl e' | None \<Rightarrow> Inr 2)
             | (loading, None) \<Rightarrow>
                 (case probe_exports env of
                    (probing, Some e) \<Rightarrow> ([Attach process_name] @ loading @ probing, Inl e)
                  | (probing, None) \<Rightarrow>
                 (let before_sleep =
                        [Attach process_name] @ loading @ probing @
                        [Log INFO [Lit msg_waiting, FmtFloat wait_seconds, Lit msg_seconds],
                         Sleep wait_seconds]
                  in case time_sleep env wait_seconds of
                       Some e \<Rightarrow> (before_sleep, Inl e)
                     | None \<Rightarrow>
                         (before_sleep @ fst (detach_quietly env) @
                          [Log INFO [Lit msg_finished]],
                          case snd (detach_quietly env) of
                            Some e' \<Rightarrow> Inl e'
                          | None \<Rightarrow> Inr 0)))))"

subsection \<open>The wrapped script, as the JavaScript engine runs it\<close>

text \<open>
  The text \<open>wrapped_js now raw_js\<close> is a JavaScript program: an immediately invoked
  function whose body is a \<^verbatim>\<open>try\<close> around the boot message, the original script body,
  the "finished" message and the export check, with a handler that reports and
  rethrows. The following definitions transcribe that program statement by statement,
  in the evaluation order of the language.

  The original body is spliced into the function as text. It can therefore do more than
  run to its end or throw: it can leave the wrapper function by \<^verbatim>\<open>return\<close>, and its
  declarations (\<^verbatim>\<open>var\<close>, \<^verbatim>\<open>function\<close>, \<^verbatim>\<open>let\<close>) can rebind the names the wrapper
  uses, \<^verbatim>\<open>send\<close>, \<^verbatim>\<open>rpc\<close>, \<^verbatim>\<open>String\<close> and \<^verbatim>\<open>Object\<close>, from the first line of the
  wrapper on. What the body's objects do when they are read (accessor properties,
  proxies) and converted to strings is up to the body as well. All of this is the
  parameter \<open>js_world\<close>: it says, for every step of the wrapper whose outcome the
  language leaves to the state of the program, what that step does. The body is taken to
  be a list of statements that ends: a body that never ends, and a text that does not
  parse in its place or that closes the blocks of the wrapper, are outside the model.

  JavaScript values. \<open>JObject callable ps\<close> is an object, callable or not, with the own
  data properties \<open>ps\<close>, which a read returns as they are; any other read of an object
  (an accessor, an inherited property, a proxy trap) is decided by the world. Numbers are
  restricted to integers.
\<close>

datatype jsval =
    JUndefined
  | JNull
  | JBool bool
  | JNumber int
  | JString string
  | JArray "jsval list"
  | JObject bool "(string \<times> jsval) list"

text \<open>
  How the body completes: it reaches its end, it returns from the wrapper function, or
  it throws a value.
\<close>

datatype completion = Normal | Return | Throw jsval

text \<open>
  What reading an identifier does: there is no binding, there is a value, or the read
  itself throws (a binding not yet initialised, an accessor on the global object).
\<close>

datatype lookup = Unresolvable | Resolved jsval | LookupThrows jsval

text \<open>The five calls of \<^verbatim>\<open>send\<close>, lines 60, 65, 70, 72 and 77.\<close>

datatype site = AtBoot | AtFinished | AtReport | AtCheckError | AtFatal

text \<open>
  The world of one run of the wrapped script.
  \<^item> \<open>body_run\<close>: how the original body completes.
  \<^item> \<open>send_lookup s\<close>: \<open>Some x\<close> when resolving the name \<^verbatim>\<open>send\<close> at the call \<open>s\<close> throws
    \<open>x\<close>. \<open>send_call s m\<close>: what calling it with the message \<open>m\<close> does, namely whether
    \<open>m\<close> reaches the host, and the value the call throws, if any. Frida's own
    \<^verbatim>\<open>send\<close> serialises the message and hands it to the host; it throws on a message
    it cannot serialise. Whatever else the body has bound to the name does as it likes.
  \<^item> \<open>rpc_lookup k\<close>: what the \<open>k\<close>-th read of the identifier \<^verbatim>\<open>rpc\<close> does (three reads
    in line 69, three in line 70).
  \<^item> \<open>other_read k v p\<close>: what the \<open>k\<close>-th property read of the wrapper, \<^verbatim>\<open>v.p\<close>, does
    when \<open>p\<close> is no own data property of \<open>v\<close>: the value read (\<open>Inr\<close>) or the value
    thrown (\<open>Inl\<close>). Reads 1 to 3 are those of line 69, 4 and 5 those of line 70, 6 and
    7 those of line 77.
  \<^item> \<open>keys_lookup\<close>: \<open>Some x\<close> when evaluating the callee \<^verbatim>\<open>Object.keys\<close> throws \<open>x\<close>;
    \<open>keys_call v\<close>: what calling it on \<open>v\<close> does.
  \<^item> \<open>string_lookup k\<close> and \<open>string_call k v\<close>: the same for the \<open>k\<close>-th call of
    \<^verbatim>\<open>String\<close> (line 72, then the two of line 77).
  \<^item> \<open>type_error v p\<close> is the error the engine throws for reading property \<open>p\<close> of
    \<^verbatim>\<open>null\<close> or \<^verbatim>\<open>undefined\<close>, \<open>reference_error x\<close> the one for reading an identifier
    that has no binding.
\<close>

record js_world =
  body_run :: completion
  send_lookup :: "site \<Rightarrow> jsval option"
  send_call :: "site \<Rightarrow> jsval \<Rightarrow> bool \<times> jsval option"
  rpc_lookup :: "nat \<Rightarrow> lookup"
  other_read :: "nat \<Rightarrow> jsval \<Rightarrow> string \<Rightarrow> jsval + jsval"
  keys_lookup :: "jsval option"
  keys_call :: "jsval \<Rightarrow> jsval + jsval"
  string_lookup :: "nat \<Rightarrow> jsval option"
  string_call :: "nat \<Rightarrow> jsval \<Rightarrow> jsval + jsval"
  type_error :: "jsval \<Rightarrow> string \<Rightarrow> jsval"
  reference_error :: "string \<Rightarrow> jsval"

fun js_typeof :: "jsval \<Rightarrow> string" where
  "js_typeof JUndefined = ''undefined''"
| "js_typeof JNull = ''object''"
| "js_typeof (JBool b) = ''boolean''"
| "js_typeof (JNumber n) = ''number''"
| "js_typeof (JString s) = ''string''"
| "js_typeof (JArray xs) = ''object''"
| "js_typeof (JObject callable ps) = (if callable then ''function'' else ''object'')"

fun js_truthy :: "jsval \<Rightarrow> bool" where
  "js_truthy JUndefined = False"
| "js_truthy JNull = False"
| "js_truthy (JBool b) = b"
| "js_truthy (JNumber n) = (n \<noteq> 0)"
| "js_truthy (JString s) = (s \<noteq> [])"
| "js_truthy (JArray xs) = True"
| "js_truthy (JObject callable ps) = True"

text \<open>
  The evaluation of an expression gives a value (\<open>Inr\<close>) or throws one (\<open>Inl\<close>).
  \<open>and_then\<close> evaluates one expression after another. \<open>call_with\<close> is a call
  \<^verbatim>\<open>f(a)\<close>: the callee is resolved first, then the argument is evaluated, then the call
  is made.
\<close>

definition and_then :: "jsval + 'a \<Rightarrow> ('a \<Rightarrow> jsval + 'b) \<Rightarrow> jsval + 'b" where
  "and_then r f = (case r of Inl x \<Rightarrow> Inl x | Inr v \<Rightarrow> f v)"

definition call_with :: "jsval option \<Rightarrow> jsval + 'a \<Rightarrow> ('a \<Rightarrow> jsval + 'b) \<Rightarrow> jsval + 'b" where
  "call_with callee arg invoke = (case callee of Some x \<Rightarrow> Inl x | None \<Rightarrow> and_then arg invoke)"

text \<open>
  The \<open>k\<close>-th read of \<^verbatim>\<open>rpc\<close> as a value, which throws a \<^verbatim>\<open>ReferenceError\<close> when there is
  no binding, and \<^verbatim>\<open>typeof rpc\<close>, which is \<^verbatim>\<open>"undefined"\<close> then.
\<close>

definition read_rpc :: "js_world \<Rightarrow> nat \<Rightarrow> jsval + jsval" where
  "read_rpc w k =
     (case rpc_lookup w k of
        Unresolvable \<Rightarrow> Inl (reference_error w ''rpc'')
      | Resolved v \<Rightarrow> Inr v
      | LookupThrows x \<Rightarrow> Inl x)"

definition typeof_rpc :: "js_world \<Rightarrow> nat \<Rightarrow> jsval + string" where
  "typeof_rpc w k =
     (case rpc_lookup w k of
        Unresolvable \<Rightarrow> Inr ''undefined''
      | Resolved v \<Rightarrow> Inr (js_typeof v)
      | LookupThrows x \<Rightarrow> Inl x)"

text \<open>
  The \<open>k\<close>-th property read, \<^verbatim>\<open>v.p\<close>: a \<^verbatim>\<open>TypeError\<close> on \<^verbatim>\<open>null\<close> and \<^verbatim>\<open>undefined\<close>, the
  value of an own data property, and the world's answer otherwise.
\<close>

definition read_prop :: "js_world \<Rightarrow> nat \<Rightarrow> jsval \<Rightarrow> string \<Rightarrow> jsval + jsval" where
  "read_prop w k v p =
     (case v of
        JUndefined \<Rightarrow> Inl (type_error w v p)
      | JNull \<Rightarrow> Inl (type_error w v p)
      | JObject callable ps \<Rightarrow>
          (case map_of ps p of Some x \<Rightarrow> Inr x | None \<Rightarrow> other_read w k v p)
      | _ \<Rightarrow> other_read w k v p)"

text \<open>
  The events of the script that the host can tell apart: a message of the wrapper that
  reaches the host, and the run of the original body (with whatever it sends itself).
\<close>

datatype js_event = Sent jsval | Body

text \<open>
  A statement gives the events it caused and the value it threw, if any. \<open>call_send\<close>
  is the statement \<^verbatim>\<open>send(arg)\<close> at a site: \<^verbatim>\<open>send\<close> is resolved, the argument is
  evaluated, the call is made. \<open>then_run\<close> runs a second statement after a first one
  that threw nothing. \<open>try_catch\<close> runs the handler on the value the block threw.
\<close>

definition call_send :: "js_world \<Rightarrow> site \<Rightarrow> jsval + jsval \<Rightarrow> js_event list \<times> jsval option" where
  "call_send w s arg =
     (case send_lookup w s of
        Some x \<Rightarrow> ([], Some x)
      | None \<Rightarrow>
          (case arg of
             Inl x \<Rightarrow> ([], Some x)
           | Inr m \<Rightarrow>
               (case send_call w s m of
                  (delivered, thrown) \<Rightarrow> (if delivered then [Sent m] else [], thrown))))"

definition then_run ::
  "js_event list \<times> jsval option \<Rightarrow> js_event list \<times> jsval option \<Rightarrow> js_event list \<times> jsval option"
where
  "then_run first second =
     (case first of
        (sent, Some x) \<Rightarrow> (sent, Some x)
      | (sent, None) \<Rightarrow> (sent @ fst second, snd second))"

definition try_catch ::
  "js_event list \<times> jsval option \<Rightarrow> (jsval \<Rightarrow> js_event list \<times> jsval option) \<Rightarrow>
   js_event list \<times> jsval option"
where
  "try_catch block handler =
     (case block of
        (sent, None) \<Rightarrow> (sent, None)
      | (sent, Some e) \<Rightarrow> (sent @ fst (handler e), snd (handler e)))"

text \<open>The five messages of the wrapper, object literals with data properties.\<close>

definition object_literal :: "(string \<times> jsval) list \<Rightarrow> jsval" where
  "object_literal ps = JObject False ps"

definition boot_message :: "string \<Rightarrow> jsval" where
  "boot_message time =
     object_literal [(''stage'', JString ''boot''), (''time'', JString time),
              (''msg'', JString ''js wrapper entered'')]"

definition finished_message :: jsval where
  "finished_message =
     object_literal [(''stage'', JString ''boot''),
              (''msg'', JString ''js wrapper finished (top-level ok)'')]"

definition exports_message :: "jsval \<Rightarrow> jsval \<Rightarrow> jsval" where
  "exports_message hasDecrypt exportKeys =
     object_literal [(''stage'', JString ''exports''), (''hasDecrypt'', hasDecrypt),
              (''exportKeys'', exportKeys)]"

definition exports_error_message :: "jsval \<Rightarrow> jsval" where
  "exports_error_message error =
     object_literal [(''stage'', JString ''exports''), (''error'', error)]"

definition fatal_message :: "jsval \<Rightarrow> jsval \<Rightarrow> jsval" where
  "fatal_message error stack =
     object_literal [(''stage'', JString ''fatal''), (''error'', error), (''stack'', stack)]"

text \<open>
  Line 69:
  \<^verbatim>\<open>(typeof rpc !== "undefined") && rpc.exports && (typeof rpc.exports.decrypt === "function")\<close>.
  \<^verbatim>\<open>a && b\<close> is \<open>a\<close> when \<open>a\<close> is falsy. The line reads \<^verbatim>\<open>rpc\<close> up to three times,
  \<^verbatim>\<open>rpc.exports\<close> up to twice and \<^verbatim>\<open>decrypt\<close> once.
\<close>

definition has_decrypt :: "js_world \<Rightarrow> jsval + jsval" where
  "has_decrypt w =
     and_then (typeof_rpc w 1) (\<lambda>t.
       if t = ''undefined'' then Inr (JBool False)
       else
         and_then (read_rpc w 2) (\<lambda>rpc.
         and_then (read_prop w 1 rpc ''exports'') (\<lambda>exports.
           if \<not> js_truthy exports then Inr exports
           else
             and_then (read_rpc w 3) (\<lambda>rpc.
             and_then (read_prop w 2 rpc ''exports'') (\<lambda>exports.
             and_then (read_prop w 3 exports ''decrypt'') (\<lambda>decrypt.
               Inr (JBool (js_typeof decrypt = ''function''))))))))"

text \<open>
  Line 70, the third property: \<^verbatim>\<open>rpc && rpc.exports ? Object.keys(rpc.exports) : null\<close>.
\<close>

definition export_keys :: "js_world \<Rightarrow> jsval + jsval" where
  "export_keys w =
     and_then (read_rpc w 4) (\<lambda>rpc.
       if \<not> js_truthy rpc then Inr JNull
       else
         and_then (read_rpc w 5) (\<lambda>rpc.
         and_then (read_prop w 4 rpc ''exports'') (\<lambda>exports.
           if \<not> js_truthy exports then Inr JNull
           else
             call_with (keys_lookup w)
               (and_then (read_rpc w 6) (\<lambda>rpc. read_prop w 5 rpc ''exports''))
               (keys_call w))))"

text \<open>
  The inner \<^verbatim>\<open>try\<close> block, lines 69 and 70: the assignment of \<^verbatim>\<open>hasDecrypt\<close>, then the
  call of \<^verbatim>\<open>send\<close> with the report.
\<close>

definition export_check_try :: "js_world \<Rightarrow> js_event list \<times> jsval option" where
  "export_check_try w =
     (case has_decrypt w of
        Inl x \<Rightarrow> ([], Some x)
      | Inr hasDecrypt \<Rightarrow>
          call_send w AtReport
            (and_then (export_keys w) (\<lambda>exportKeys.
               Inr (exports_message hasDecrypt exportKeys))))"

text \<open>
  The inner \<^verbatim>\<open>try\<close> with its handler, lines 68 to 73. The handler calls \<^verbatim>\<open>String(e)\<close> and
  \<^verbatim>\<open>send\<close> unguarded: what they throw leaves the check.
\<close>

definition export_check :: "js_world \<Rightarrow> js_event list \<times> jsval option" where
  "export_check w =
     try_catch (export_check_try w) (\<lambda>e.
       call_send w AtCheckError
         (and_then (call_with (string_lookup w 1) (Inr e) (string_call w 1)) (\<lambda>error.
            Inr (exports_error_message error))))"

text \<open>
  Line 77, the third property: \<^verbatim>\<open>e && e.stack ? String(e.stack) : null\<close>, which reads
  \<^verbatim>\<open>e.stack\<close> twice, and the whole argument of the call of \<^verbatim>\<open>send\<close>.
\<close>

definition stack_field :: "js_world \<Rightarrow> jsval \<Rightarrow> jsval + jsval" where
  "stack_field w e =
     (if \<not> js_truthy e then Inr JNull
      else
        and_then (read_prop w 6 e ''stack'') (\<lambda>stack.
          if \<not> js_truthy stack then Inr JNull
          else call_with (string_lookup w 3) (read_prop w 7 e ''stack'') (string_call w 3)))"

definition fatal_argument :: "js_world \<Rightarrow> jsval \<Rightarrow> jsval + jsval" where
  "fatal_argument w e =
     and_then (call_with (string_lookup w 2) (Inr e) (string_call w 2)) (\<lambda>error.
     and_then (stack_field w e) (\<lambda>stack.
       Inr (fatal_message error stack)))"

text \<open>
  The outer \<^verbatim>\<open>try\<close> block, lines 60 to 73: the boot message, the body, the "finished"
  message, the export check. A body that returns ends the function at once.
\<close>

definition wrapper_try :: "js_world \<Rightarrow> string \<Rightarrow> js_event list \<times> jsval option" where
  "wrapper_try w time =
     then_run (call_send w AtBoot (Inr (boot_message time)))
       (case body_run w of
          Throw x \<Rightarrow> ([Body], Some x)
        | Return \<Rightarrow> ([Body], None)
        | Normal \<Rightarrow>
            then_run ([Body], None)
              (then_run (call_send w AtFinished (Inr finished_message)) (export_check w)))"

text \<open>
  The wrapped script: the outer \<^verbatim>\<open>try\<close> with its handler, lines 75 to 79, which sends
  the "fatal" message and then throws \<open>e\<close> again. The second component is the value that
  leaves the script.
\<close>

definition run_wrapped :: "js_world \<Rightarrow> string \<Rightarrow> js_event list \<times> jsval option" where
  "run_wrapped w time =
     try_catch (wrapper_try w time) (\<lambda>e.
       then_run (call_send w AtFatal (fatal_argument w e)) ([], Some e))"

text \<open>A field of a message, \<^verbatim>\<open>undefined\<close> when the message has none of that name.\<close>

definition field :: "jsval \<Rightarrow> string \<Rightarrow> jsval" where
  "field m k =
     (case m of
        JObject callable ps \<Rightarrow> (case map_of ps k of Some v \<Rightarrow> v | None \<Rightarrow> JUndefined)
      | _ \<Rightarrow> JUndefined)"

definition stage :: "jsval \<Rightarrow> jsval" where
  "stage m = field m ''stage''"

subsection \<open>Notions used in the statements\<close>

text \<open>The texts of the records a run logs at level \<^verbatim>\<open>ERROR\<close>, in order.\<close>

definition error_texts :: "event list \<Rightarrow> piece list list" where
  "error_texts tr = concat (map (\<lambda>ev. case ev of Log ERROR t \<Rightarrow> [t] | _ \<Rightarrow> []) tr)"

text \<open>The calls that open a session and create a script.\<close>

definition is_attach :: "event \<Rightarrow> bool" where
  "is_attach ev = (case ev of Attach name \<Rightarrow> True | _ \<Rightarrow> False)"

definition is_create_script :: "event \<Rightarrow> bool" where
  "is_create_script ev = (case ev of CreateScript src \<Rightarrow> True | _ \<Rightarrow> False)"

text \<open>
  The body leaves \<^verbatim>\<open>send\<close> bound to Frida's own function, and that function can
  serialise what it is given: at every call of the wrapper the name resolves, the
  message reaches the host and the call returns.
\<close>

definition host_send :: "js_world \<Rightarrow> bool" where
  "host_send w = (\<forall>s m. send_lookup w s = None \<and> send_call w s m = (True, None))"

subsection \<open>Concrete runs\<close>

text \<open>
  Inputs on which the definitions above are evaluated: a world in which every call
  succeeds (its sleep rejects negative waits and accepts every other finite one), and
  variants in which one step fails. In \<open>env_no_cwd\<close> the script is missing and the
  working directory has been removed.
\<close>

definition sample_script :: pystr where
  "sample_script = ascii ''rpc.exports = { decrypt: function (path) { return path; } };''"

definition sample_sleep_rejects :: "pyfloat \<Rightarrow> exn" where
  "sample_sleep_rejects x = (case x of NegInf \<Rightarrow> OverflowError | _ \<Rightarrow> ValueError)"

definition sample_sleep_outcome :: "pyfloat \<Rightarrow> exn option" where
  "sample_sleep_outcome x =
     (case x of
        Finite q \<Rightarrow> None
      | NaN \<Rightarrow> Some ValueError
      | _ \<Rightarrow> Some OverflowError)"

definition env_ok :: env where
  "env_ok =
     \<lparr>path_exists = (\<lambda>p. True),
      abspath = (\<lambda>p. Inr (ascii ''/home/user/'' @ p)),
      attach = (\<lambda>name. None),
      read_text = (\<lambda>p. Inr sample_script),
      now_isoformat = ascii ''2024-05-01T12:00:00.000000'',
      create_script = (\<lambda>src. None),
      script_on = None,
      script_load = None,
      exports_sync = None,
      exports_sync_again = None,
      getattr_decrypt = None,
      detach = None,
      sleep_rejects = sample_sleep_rejects,
      sleep_outcome = sample_sleep_outcome\<rparr>"

definition env_no_script :: env where
  "env_no_script = env_ok\<lparr>path_exists := (\<lambda>p. False)\<rparr>"

definition env_no_cwd :: env where
  "env_no_cwd =
     env_ok\<lparr>path_exists := (\<lambda>p. False),
            abspath := (\<lambda>p. Inl (OtherException (ascii ''FileNotFoundError'')))\<rparr>"

definition env_no_process :: env where
  "env_no_process = env_ok\<lparr>attach := (\<lambda>name. Some ProcessNotFoundError)\<rparr>"

definition env_attach_denied :: env where
  "env_attach_denied =
     env_ok\<lparr>attach := (\<lambda>name. Some (OtherException (ascii ''PermissionDeniedError'')))\<rparr>"

definition env_load_fails :: env where
  "env_load_fails =
     env_ok\<lparr>script_load := Some (OtherException (ascii ''InvalidOperationError'')),
            detach := Some (OtherException (ascii ''InvalidOperationError''))\<rparr>"

definition env_unreadable :: env where
  "env_unreadable = env_ok\<lparr>read_text := (\<lambda>p. Inl (OtherException (ascii ''PermissionError'')))\<rparr>"

definition env_probe_fails :: env where
  "env_probe_fails =
     env_ok\<lparr>getattr_decrypt := Some (OtherException (ascii ''RPCException'')),
            detach := Some (OtherException (ascii ''InvalidOperationError''))\<rparr>"

definition process_name_default :: pystr where
  "process_name_default = ascii ''QQMusic.exe''"

definition js_path_default :: pystr where
  "js_path_default = ascii ''hook_qq_music.js''"

definition message_send :: pyval where
  "message_send =
     PDict [(ascii ''type'', PStr (ascii ''send'')),
            (ascii ''payload'', PDict [(ascii ''stage'', PStr (ascii ''boot''))])]"

definition message_error :: pyval where
  "message_error =
     PDict [(ascii ''type'', PStr (ascii ''error'')),
            (ascii ''description'', PStr (ascii ''ReferenceError: x is not defined'')),
            (ascii ''stack'', PStr (ascii ''at <anonymous>''))]"

definition message_error_bare :: pyval where
  "message_error_bare = PDict [(ascii ''type'', PStr (ascii ''error''))]"

definition message_error_odd :: pyval where
  "message_error_odd =
     PDict [(ascii ''type'', PStr (ascii ''error'')),
            (ascii ''description'', PStr (ascii ''boom'')),
            (ascii ''stack'', PInt 7)]"

definition message_error_code :: pyval where
  "message_error_code =
     PDict [(ascii ''type'', PStr (ascii ''error'')), (ascii ''description'', PInt 404)]"

definition message_log :: pyval where
  "message_log = PDict [(ascii ''type'', PStr (ascii ''log''))]"

































section \<open>Properties\<close>

subsection \<open>The message sink\<close>

lemma on_message_try_not_dict:
  "\<forall>kvs. message \<noteq> PDict kvs \<Longrightarrow> on_message_try message = ([], Some AttributeError)"
  by (cases message) (simp_all add: on_message_try_def dict_get_def)

lemma on_message_returns: "snd (on_message message data) = None"
  by (simp add: on_message_def split: prod.splits option.splits)

text \<open>
  Claim C8. \<open>on_message\<close> never raises, whatever the message is. A message whose
  \<^verbatim>\<open>type\<close> is \<^verbatim>\<open>"send"\<close> gets one \<^verbatim>\<open>INFO\<close> record with its payload. A message whose
  \<^verbatim>\<open>type\<close> is \<^verbatim>\<open>"error"\<close> gets an \<^verbatim>\<open>ERROR\<close> record with its description (the empty
  text when the description is missing or falsy) and, when its stack is a non-empty
  string, a second \<^verbatim>\<open>ERROR\<close> record with the stack. A message of any other type gets
  one \<^verbatim>\<open>INFO\<close> record with the whole message. Every exception of the interpretation is
  caught and logged as a parse failure: the \<^verbatim>\<open>AttributeError\<close> of a message that is not a
  dictionary, and the \<^verbatim>\<open>TypeError\<close> of a description or a stack that is not a string.
\<close>

theorem on_message_never_raises:
  "snd (on_message message data) = None \<and>
   (\<forall>payload.
      dict_get message (ascii ''type'') = Inr (PStr (ascii ''send'')) \<longrightarrow>
      dict_get message (ascii ''payload'') = Inr payload \<longrightarrow>
      fst (on_message message data) = [Log INFO [Lit (ascii ''[JS send] ''), FmtVal payload]]) \<and>
   (\<forall>desc stack.
      dict_get message (ascii ''type'') = Inr (PStr (ascii ''error'')) \<longrightarrow>
      dict_get message (ascii ''description'') = Inr desc \<longrightarrow>
      dict_get message (ascii ''stack'') = Inr stack \<longrightarrow>
      (\<forall>d. py_or desc (PStr []) = PStr d \<longrightarrow>
         (\<not> truthy stack \<longrightarrow>
            fst (on_message message data) = [Log ERROR [Lit (ascii ''[JS error] '' @ d)]]) \<and>
         (\<forall>s. stack = PStr s \<longrightarrow> s \<noteq> [] \<longrightarrow>
            fst (on_message message data) =
              [Log ERROR [Lit (ascii ''[JS error] '' @ d)],
               Log ERROR [Lit (ascii ''[JS stack]'' @ [10] @ s)]]) \<and>
         (truthy stack \<longrightarrow> (\<forall>s. stack \<noteq> PStr s) \<longrightarrow>
            fst (on_message message data) =
              [Log ERROR [Lit (ascii ''[JS error] '' @ d)],
               Log ERROR [Lit msg_parse_failed, FmtExn TypeError]])) \<and>
      ((\<forall>d. py_or desc (PStr []) \<noteq> PStr d) \<longrightarrow>
         fst (on_message message data) = [Log ERROR [Lit msg_parse_failed, FmtExn TypeError]])) \<and>
   (\<forall>mtype.
      dict_get message (ascii ''type'') = Inr mtype \<longrightarrow>
      mtype \<noteq> PStr (ascii ''send'') \<longrightarrow> mtype \<noteq> PStr (ascii ''error'') \<longrightarrow>
      fst (on_message message data) = [Log INFO [Lit (ascii ''[JS message] ''), FmtVal message]]) \<and>
   ((\<forall>kvs. message \<noteq> PDict kvs) \<longrightarrow>
      fst (on_message message data) = [Log ERROR [Lit msg_parse_failed, FmtExn AttributeError]])"
proof (intro conjI allI impI)
  show "snd (on_message message data) = None"
    by (rule on_message_returns)
next
  fix payload
  assume "dict_get message (ascii ''type'') = Inr (PStr (ascii ''send''))"
    and "dict_get message (ascii ''payload'') = Inr payload"
  then show "fst (on_message message data) =
      [Log INFO [Lit (ascii ''[JS send] ''), FmtVal payload]]"
    by (simp add: on_message_def on_message_try_def)
next
  fix desc stack d
  assume t: "dict_get message (ascii ''type'') = Inr (PStr (ascii ''error''))"
    and g: "dict_get message (ascii ''description'') = Inr desc"
      "dict_get message (ascii ''stack'') = Inr stack"
    and d: "py_or desc (PStr []) = PStr d"
  have ne: "PStr (ascii ''error'') \<noteq> PStr (ascii ''send'')"
    by (simp add: ascii_def)
  {
    assume "\<not> truthy stack"
    then show "fst (on_message message data) = [Log ERROR [Lit (ascii ''[JS error] '' @ d)]]"
      using t g d ne by (simp add: on_message_def on_message_try_def str_add_def)
  }
  {
    fix s assume "stack = PStr s" and "s \<noteq> []"
    then show "fst (on_message message data) =
        [Log ERROR [Lit (ascii ''[JS error] '' @ d)],
         Log ERROR [Lit (ascii ''[JS stack]'' @ [10] @ s)]]"
      using t g d ne by (simp add: on_message_def on_message_try_def str_add_def)
  }
  {
    assume "truthy stack" and "\<forall>s. stack \<noteq> PStr s"
    then show "fst (on_message message data) =
        [Log ERROR [Lit (ascii ''[JS error] '' @ d)],
         Log ERROR [Lit msg_parse_failed, FmtExn TypeError]]"
      using t g d ne
      by (cases stack) (simp_all add: on_message_def on_message_try_def str_add_def)
  }
next
  fix desc stack
  assume t: "dict_get message (ascii ''type'') = Inr (PStr (ascii ''error''))"
    and g: "dict_get message (ascii ''description'') = Inr desc"
      "dict_get message (ascii ''stack'') = Inr stack"
    and d: "\<forall>d. py_or desc (PStr []) \<noteq> PStr d"
  have ne: "PStr (ascii ''error'') \<noteq> PStr (ascii ''send'')"
    by (simp add: ascii_def)
  from d have "str_add (ascii ''[JS error] '') (py_or desc (PStr [])) = Inl TypeError"
    by (cases "py_or desc (PStr [])") (simp_all add: str_add_def)
  then show "fst (on_message message data) = [Log ERROR [Lit msg_parse_failed, FmtExn TypeError]]"
    using t g ne by (simp add: on_message_def on_message_try_def)
next
  fix mtype
  assume "dict_get message (ascii ''type'') = Inr mtype"
    and "mtype \<noteq> PStr (ascii ''send'')" and "mtype \<noteq> PStr (ascii ''error'')"
  then show "fst (on_message message data) =
      [Log INFO [Lit (ascii ''[JS message] ''), FmtVal message]]"
    by (simp add: on_message_def on_message_try_def)
next
  assume "\<forall>kvs. message \<noteq> PDict kvs"
  then show "fst (on_message message data) =
      [Log ERROR [Lit msg_parse_failed, FmtExn AttributeError]]"
    by (simp add: on_message_def on_message_try_not_dict)
qed

theorem on_message_never_raises_witness:
  "snd (on_message message_error PNone) = None \<and>
   fst (on_message message_send PNone) =
     [Log INFO [Lit (ascii ''[JS send] ''), FmtVal (PDict [(ascii ''stage'', PStr (ascii ''boot''))])]] \<and>
   fst (on_message message_error PNone) =
     [Log ERROR [Lit (ascii ''[JS error] ReferenceError: x is not defined'')],
      Log ERROR [Lit (ascii ''[JS stack]'' @ [10] @ ascii ''at <anonymous>'')]] \<and>
   fst (on_message message_error_bare PNone) = [Log ERROR [Lit (ascii ''[JS error] '')]] \<and>
   fst (on_message message_error_odd PNone) =
     [Log ERROR [Lit (ascii ''[JS error] boom'')],
      Log ERROR [Lit msg_parse_failed, FmtExn TypeError]] \<and>
   fst (on_message message_error_code PNone) =
     [Log ERROR [Lit msg_parse_failed, FmtExn TypeError]] \<and>
   fst (on_message message_log PNone) =
     [Log INFO [Lit (ascii ''[JS message] ''), FmtVal message_log]] \<and>
   fst (on_message (PStr (ascii ''boot'')) PNone) =
     [Log ERROR [Lit msg_parse_failed, FmtExn AttributeError]]"
proof (intro conjI)
  show "snd (on_message message_error PNone) = None"
    using on_message_never_raises [of message_error PNone] by blast
next
  have "dict_get message_send (ascii ''type'') = Inr (PStr (ascii ''send''))"
    and "dict_get message_send (ascii ''payload'') =
           Inr (PDict [(ascii ''stage'', PStr (ascii ''boot''))])"
    by (simp_all add: message_send_def dict_get_def ascii_def)
  then show "fst (on_message message_send PNone) =
     [Log INFO [Lit (ascii ''[JS send] ''), FmtVal (PDict [(ascii ''stage'', PStr (ascii ''boot''))])]]"
    using on_message_never_raises [of message_send PNone] by blast
next
  have "dict_get message_error (ascii ''type'') = Inr (PStr (ascii ''error''))"
    and "dict_get message_error (ascii ''description'') =
           Inr (PStr (ascii ''ReferenceError: x is not defined''))"
    and "dict_get message_error (ascii ''stack'') = Inr (PStr (ascii ''at <anonymous>''))"
    and "py_or (PStr (ascii ''ReferenceError: x is not defined'')) (PStr []) =
           PStr (ascii ''ReferenceError: x is not defined'')"
    and "ascii ''at <anonymous>'' \<noteq> []"
    by (simp_all add: message_error_def dict_get_def py_or_def ascii_def)
  then have "fst (on_message message_error PNone) =
     [Log ERROR [Lit (ascii ''[JS error] '' @ ascii ''ReferenceError: x is not defined'')],
      Log ERROR [Lit (ascii ''[JS stack]'' @ [10] @ ascii ''at <anonymous>'')]]"
    using on_message_never_raises [of message_error PNone] by blast
  then show "fst (on_message message_error PNone) =
     [Log ERROR [Lit (ascii ''[JS error] ReferenceError: x is not defined'')],
      Log ERROR [Lit (ascii ''[JS stack]'' @ [10] @ ascii ''at <anonymous>'')]]"
    by (simp add: ascii_def)
next
  have "dict_get message_error_bare (ascii ''type'') = Inr (PStr (ascii ''error''))"
    and "dict_get message_error_bare (ascii ''description'') = Inr PNone"
    and "dict_get message_error_bare (ascii ''stack'') = Inr PNone"
    and "py_or PNone (PStr []) = PStr []"
    and "\<not> truthy PNone"
    by (simp_all add: message_error_bare_def dict_get_def py_or_def ascii_def)
  then have "fst (on_message message_error_bare PNone) =
     [Log ERROR [Lit (ascii ''[JS error] '' @ [])]]"
    using on_message_never_raises [of message_error_bare PNone] by blast
  then show "fst (on_message message_error_bare PNone) = [Log ERROR [Lit (ascii ''[JS error] '')]]"
    by simp
next
  have "dict_get message_error_odd (ascii ''type'') = Inr (PStr (ascii ''error''))"
    and "dict_get message_error_odd (ascii ''description'') = Inr (PStr (ascii ''boom''))"
    and "dict_get message_error_odd (ascii ''stack'') = Inr (PInt 7)"
    and "py_or (PStr (ascii ''boom'')) (PStr []) = PStr (ascii ''boom'')"
    and "truthy (PInt 7)" and "\<forall>s. PInt 7 \<noteq> PStr s"
    by (simp_all add: message_error_odd_def dict_get_def py_or_def ascii_def)
  then have "fst (on_message message_error_odd PNone) =
     [Log ERROR [Lit (ascii ''[JS error] '' @ ascii ''boom'')],
      Log ERROR [Lit msg_parse_failed, FmtExn TypeError]]"
    using on_message_never_raises [of message_error_odd PNone] by blast
  then show "fst (on_message message_error_odd PNone) =
     [Log ERROR [Lit (ascii ''[JS error] boom'')],
      Log ERROR [Lit msg_parse_failed, FmtExn TypeError]]"
    by (simp add: ascii_def)
next
  have "dict_get message_error_code (ascii ''type'') = Inr (PStr (ascii ''error''))"
    and "dict_get message_error_code (ascii ''description'') = Inr (PInt 404)"
    and "dict_get message_error_code (ascii ''stack'') = Inr PNone"
    and "\<forall>d. py_or (PInt 404) (PStr []) \<noteq> PStr d"
    by (simp_all add: message_error_code_def dict_get_def py_or_def ascii_def)
  then show "fst (on_message message_error_code PNone) =
     [Log ERROR [Lit msg_parse_failed, FmtExn TypeError]]"
    using on_message_never_raises [of message_error_code PNone] by blast
next
  have "dict_get message_log (ascii ''type'') = Inr (PStr (ascii ''log''))"
    and "PStr (ascii ''log'') \<noteq> PStr (ascii ''send'')"
    and "PStr (ascii ''log'') \<noteq> PStr (ascii ''error'')"
    by (simp_all add: message_log_def dict_get_def ascii_def)
  then show "fst (on_message message_log PNone) =
     [Log INFO [Lit (ascii ''[JS message] ''), FmtVal message_log]]"
    using on_message_never_raises [of message_log PNone] by blast
next
  have "\<forall>kvs. PStr (ascii ''boot'') \<noteq> PDict kvs"
    by simp
  then show "fst (on_message (PStr (ascii ''boot'')) PNone) =
     [Log ERROR [Lit msg_parse_failed, FmtExn AttributeError]]"
    using on_message_never_raises [of "PStr (ascii ''boot'')" PNone] by blast
qed

subsection \<open>The diagnostic run\<close>

lemma detach_quietly_eq: "detach_quietly env = ([Detach], None)"
  by (cases "detach env") (simp_all add: detach_quietly_def)

lemma probe_exports_returns: "snd (probe_exports env) = None"
  by (simp add: probe_exports_def split: option.splits)

lemma probe_exports_no_detach: "Detach \<notin> set (fst (probe_exports env))"
  by (simp add: probe_exports_def split: option.splits)

lemma load_script_no_detach: "Detach \<notin> set (fst (load_script env js_path))"
  by (simp add: load_script_def Let_def split: option.splits sum.splits)

lemma count_list_0: "x \<notin> set xs \<Longrightarrow> count_list xs x = 0"
  by (induction xs) auto

lemma time_sleep_negative: "is_negative x \<Longrightarrow> \<exists>e. time_sleep env x = Some e"
  by (simp add: time_sleep_def)

lemma time_sleep_sample:
  "time_sleep env_ok (Finite 3) = None"
  "time_sleep env_probe_fails (Finite 3) = None"
  "time_sleep env_load_fails (Finite 3) = None"
  "time_sleep env_ok (Finite (- 1)) = Some ValueError"
  "time_sleep env_ok (Finite (- 2)) = Some ValueError"
  by (simp_all add: time_sleep_def is_negative_def env_ok_def env_probe_fails_def
      env_load_fails_def sample_sleep_rejects_def sample_sleep_outcome_def)

lemma time_sleep_update [simp]:
  "time_sleep (env\<lparr>detach := d\<rparr>) secs = time_sleep env secs"
  "time_sleep (env\<lparr>exports_sync := p\<rparr>) secs = time_sleep env secs"
  "time_sleep (env\<lparr>exports_sync_again := p\<rparr>) secs = time_sleep env secs"
  "time_sleep (env\<lparr>getattr_decrypt := p\<rparr>) secs = time_sleep env secs"
  by (simp_all add: time_sleep_def)

lemma load_script_failure_cases:
  "snd (load_script env js_path) = Some e \<longleftrightarrow>
     read_text env js_path = Inl e \<or>
     (\<exists>raw_js. read_text env js_path = Inr raw_js \<and>
        (create_script env (wrapped_js (now_isoformat env) raw_js) = Some e \<or>
         create_script env (wrapped_js (now_isoformat env) raw_js) = None \<and>
         (script_on env = Some e \<or> script_on env = None \<and> script_load env = Some e)))"
  by (auto simp add: load_script_def Let_def split: option.splits sum.splits)

lemma load_script_success_cases:
  "snd (load_script env js_path) = None \<longleftrightarrow>
     (\<exists>raw_js. read_text env js_path = Inr raw_js \<and>
         create_script env (wrapped_js (now_isoformat env) raw_js) = None \<and>
         script_on env = None \<and> script_load env = None)"
  by (auto simp add: load_script_def Let_def split: option.splits sum.splits)

lemma run_diag_attach_failed:
  assumes "path_exists env js_path" and "attach env process_name = Some e"
  shows "run_diag env process_name js_path wait_seconds =
     ([Attach process_name,
       Log ERROR (if e = ProcessNotFoundError
                  then [Lit msg_process_not_found, Lit process_name, Lit msg_start_target_first]
                  else [Lit msg_attach_failed, FmtExn e])], Inr 2)"
  using assms by (simp add: run_diag_def)

lemma run_diag_load_failed:
  assumes "path_exists env js_path" and "attach env process_name = None"
    and "snd (load_script env js_path) = Some e"
  shows "run_diag env process_name js_path wait_seconds =
     ([Attach process_name] @ fst (load_script env js_path) @
      [Log ERROR [Lit msg_load_failed, FmtExn e], Detach], Inr 2)"
proof -
  obtain loading where l: "load_script env js_path = (loading, Some e)"
    using assms(3) by (cases "load_script env js_path") auto
  show ?thesis
    using assms(1,2) by (simp add: run_diag_def l detach_quietly_eq)
qed

lemma run_diag_loaded:
  assumes "path_exists env js_path" and "attach env process_name = None"
    and "snd (load_script env js_path) = None"
  shows "run_diag env process_name js_path wait_seconds =
     (let before_sleep =
            [Attach process_name] @ fst (load_script env js_path) @ fst (probe_exports env) @
            [Log INFO [Lit msg_waiting, FmtFloat wait_seconds, Lit msg_seconds],
             Sleep wait_seconds]
      in case time_sleep env wait_seconds of
           Some e \<Rightarrow> (before_sleep, Inl e)
         | None \<Rightarrow> (before_sleep @ [Detach, Log INFO [Lit msg_finished]], Inr 0))"
proof -
  obtain loading where l: "load_script env js_path = (loading, None)"
    using assms(3) by (cases "load_script env js_path") auto
  obtain probing where p: "probe_exports env = (probing, None)"
    using probe_exports_returns [of env] by (cases "probe_exports env") auto
  show ?thesis
    using assms(1,2) by (simp add: run_diag_def l p detach_quietly_eq Let_def split: option.splits)
qed

lemma load_script_detach_update [simp]:
  "load_script (env\<lparr>detach := d\<rparr>) js_path = load_script env js_path"
  by (simp add: load_script_def Let_def split: sum.splits option.splits)

lemma probe_exports_detach_update [simp]:
  "probe_exports (env\<lparr>detach := d\<rparr>) = probe_exports env"
  by (simp add: probe_exports_def split: option.splits)

lemma run_diag_detach_update:
  "run_diag (env\<lparr>detach := d\<rparr>) process_name js_path wait_seconds =
   run_diag env process_name js_path wait_seconds"
proof (cases "path_exists env js_path")
  case False
  then show ?thesis by (simp add: run_diag_def)
next
  case True
  show ?thesis
  proof (cases "attach env process_name")
    case (Some e)
    with True show ?thesis
      by (simp add: run_diag_attach_failed [of _ js_path process_name e])
  next
    case None
    note attached = this
    show ?thesis
    proof (cases "snd (load_script env js_path)")
      case (Some e)
      with True attached show ?thesis
        by (simp add: run_diag_load_failed [of _ js_path process_name e])
    next
      case None
      with True attached show ?thesis
        by (simp add: run_diag_loaded [of _ js_path process_name])
    qed
  qed
qed

lemma before_sleep_no_detach:
  "Detach \<notin> set ([Attach process_name] @ fst (load_script env js_path) @ fst (probe_exports env) @
            [Log INFO [Lit msg_waiting, FmtFloat wait_seconds, Lit msg_seconds],
             Sleep wait_seconds])"
  using load_script_no_detach [of env js_path] probe_exports_no_detach [of env] by simp

text \<open>
  Claim C2, amended. Whenever the script file at \<open>js_path\<close> does not exist, the trace
  of \<open>run_diag\<close> holds no call of \<^verbatim>\<open>frida.attach\<close>, whatever the process name, and when
  \<^verbatim>\<open>os.path.abspath(js_path)\<close> returns, \<open>run_diag\<close> logs one error record with that path
  and returns exit code 2.
\<close>

theorem missing_script_no_attach:
  assumes "\<not> path_exists env js_path"
  shows "(\<forall>name. Attach name \<notin> set (fst (run_diag env process_name js_path wait_seconds))) \<and>
         (\<forall>path. abspath env js_path = Inr path \<longrightarrow>
            run_diag env process_name js_path wait_seconds =
              ([Log ERROR [Lit msg_script_missing, Lit path]], Inr 2))"
  using assms by (simp add: run_diag_def split: sum.splits)

theorem missing_script_no_attach_witness:
  "\<not> path_exists env_no_script js_path_default \<and>
   abspath env_no_script js_path_default = Inr (ascii ''/home/user/'' @ js_path_default) \<and>
   run_diag env_no_script process_name_default js_path_default (Finite 5) =
     ([Log ERROR [Lit msg_script_missing, Lit (ascii ''/home/user/'' @ js_path_default)]],
      Inr 2) \<and>
   (\<forall>name. Attach name \<notin> set (fst (run_diag env_no_script process_name_default js_path_default (Finite 5))))"
proof -
  have h: "\<not> path_exists env_no_script js_path_default"
    by (simp add: env_no_script_def env_ok_def)
  have a: "abspath env_no_script js_path_default = Inr (ascii ''/home/user/'' @ js_path_default)"
    by (simp add: env_no_script_def env_ok_def)
  show ?thesis
    using h a missing_script_no_attach [OF h, of process_name_default "Finite 5"] by simp
qed

text \<open>
  The claim as stated, exit code 2 whenever the script file is missing, fails when the
  path is relative and the working directory is gone: the file does not exist, and the
  \<^verbatim>\<open>FileNotFoundError\<close> of \<^verbatim>\<open>os.path.abspath\<close> leaves \<open>run_diag\<close> instead of an exit code.
\<close>

theorem missing_script_exit_code_counterexample:
  "\<not> path_exists env_no_cwd js_path_default \<and>
   run_diag env_no_cwd process_name_default js_path_default (Finite 5) =
     ([], Inl (OtherException (ascii ''FileNotFoundError'')))"
  by (simp add: run_diag_def env_no_cwd_def env_ok_def)

lemma render_process_not_found:
  "render f [Lit msg_process_not_found, Lit name, Lit msg_start_target_first] =
   0x672A # ([0x627E, 0x5230, 0x8FDB, 0x7A0B] @ ascii '' '' @ name @ msg_start_target_first)"
  by (simp add: render_def msg_process_not_found_def)

lemma render_attach_failed:
  "render f [Lit msg_attach_failed, FmtExn e] =
   97 # (ascii ''ttach '' @ [0x5931, 0x8D25] @ ascii '': '' @ str_exn f e)"
  by (simp add: render_def msg_attach_failed_def ascii_def)

lemma render_distinct:
  "render f [Lit msg_process_not_found, Lit name, Lit msg_start_target_first] \<noteq>
   render f' [Lit msg_attach_failed, FmtExn e]"
  unfolding render_process_not_found render_attach_failed by simp

text \<open>
  Claim C3. Whenever \<^verbatim>\<open>frida.attach\<close> raises, \<open>run_diag\<close> returns exit code 2 and logs
  exactly one error record. When the exception is \<^verbatim>\<open>ProcessNotFoundError\<close>, the rendered
  text of that record differs from the rendered text of the record of any run whose attach
  raised any other exception, for every process name, every exception and every way of
  formatting values.
\<close>

theorem attach_failure_exit_code_and_message:
  assumes "path_exists env js_path" and "attach env process_name = Some e"
  shows "snd (run_diag env process_name js_path wait_seconds) = Inr 2 \<and>
         (\<exists>t. error_texts (fst (run_diag env process_name js_path wait_seconds)) = [t] \<and>
           (e = ProcessNotFoundError \<longrightarrow>
             (\<forall>env' process_name' js_path' wait_seconds' e'.
                path_exists env' js_path' \<longrightarrow> attach env' process_name' = Some e' \<longrightarrow>
                e' \<noteq> ProcessNotFoundError \<longrightarrow>
                (\<exists>t'. error_texts (fst (run_diag env' process_name' js_path' wait_seconds')) = [t'] \<and>
                      (\<forall>f. render f t \<noteq> render f t')))))"
proof (intro conjI)
  show "snd (run_diag env process_name js_path wait_seconds) = Inr 2"
    by (simp add: run_diag_attach_failed [OF assms])
next
  show "\<exists>t. error_texts (fst (run_diag env process_name js_path wait_seconds)) = [t] \<and>
           (e = ProcessNotFoundError \<longrightarrow>
             (\<forall>env' process_name' js_path' wait_seconds' e'.
                path_exists env' js_path' \<longrightarrow> attach env' process_name' = Some e' \<longrightarrow>
                e' \<noteq> ProcessNotFoundError \<longrightarrow>
                (\<exists>t'. error_texts (fst (run_diag env' process_name' js_path' wait_seconds')) = [t'] \<and>
                      (\<forall>f. render f t \<noteq> render f t'))))"
  proof (cases "e = ProcessNotFoundError")
    case True
    have "error_texts (fst (run_diag env process_name js_path wait_seconds)) =
          [[Lit msg_process_not_found, Lit process_name, Lit msg_start_target_first]]"
      by (simp add: run_diag_attach_failed [OF assms] True error_texts_def)
    moreover have "\<exists>t'. error_texts (fst (run_diag env' process_name' js_path' wait_seconds')) = [t'] \<and>
        (\<forall>f. render f [Lit msg_process_not_found, Lit process_name, Lit msg_start_target_first]
              \<noteq> render f t')"
      if "path_exists env' js_path'" and "attach env' process_name' = Some e'"
        and "e' \<noteq> ProcessNotFoundError"
      for env' process_name' js_path' wait_seconds' e'
      using that render_distinct
      by (simp add: run_diag_attach_failed [OF that(1,2)] error_texts_def)
    ultimately show ?thesis by blast
  next
    case False
    then show ?thesis
      by (simp add: run_diag_attach_failed [OF assms] error_texts_def)
  qed
qed

theorem attach_failure_exit_code_and_message_witness:
  "snd (run_diag env_no_process process_name_default js_path_default (Finite 3)) = Inr 2 \<and>
   (\<exists>t t'. error_texts (fst (run_diag env_no_process process_name_default js_path_default (Finite 3))) = [t] \<and>
      error_texts (fst (run_diag env_attach_denied process_name_default js_path_default (Finite 3))) = [t'] \<and>
      (\<forall>f. render f t \<noteq> render f t'))"
proof -
  have a: "path_exists env_no_process js_path_default"
    by (simp add: env_no_process_def env_ok_def)
  have b: "attach env_no_process process_name_default = Some ProcessNotFoundError"
    by (simp add: env_no_process_def env_ok_def)
  have c: "path_exists env_attach_denied js_path_default"
    by (simp add: env_attach_denied_def env_ok_def)
  have d: "attach env_attach_denied process_name_default =
           Some (OtherException (ascii ''PermissionDeniedError''))"
    by (simp add: env_attach_denied_def env_ok_def)
  from attach_failure_exit_code_and_message [OF a b, of "Finite 3"] c d
  show ?thesis by blast
qed

text \<open>
  Claim C4. Whenever attach succeeds and reading the file, creating the script,
  registering the callback or loading the script raises \<open>e\<close>, \<open>run_diag\<close> logs the
  failure, calls \<^verbatim>\<open>session.detach()\<close> once as its last action and returns exit code 2; the
  exit code is 2 whatever detach does (\<open>d\<close>: it returns, or raises anything).
\<close>

theorem load_failure_detaches_and_fails:
  assumes "path_exists env js_path" and "attach env process_name = None"
    and "read_text env js_path = Inl e \<or>
         (\<exists>raw_js. read_text env js_path = Inr raw_js \<and>
            (create_script env (wrapped_js (now_isoformat env) raw_js) = Some e \<or>
             create_script env (wrapped_js (now_isoformat env) raw_js) = None \<and>
             (script_on env = Some e \<or> script_on env = None \<and> script_load env = Some e)))"
  shows "snd (run_diag env process_name js_path wait_seconds) = Inr 2 \<and>
         fst (run_diag env process_name js_path wait_seconds) =
           [Attach process_name] @ fst (load_script env js_path) @
           [Log ERROR [Lit msg_load_failed, FmtExn e], Detach] \<and>
         count_list (fst (run_diag env process_name js_path wait_seconds)) Detach = 1 \<and>
         snd (run_diag (env\<lparr>detach := d\<rparr>) process_name js_path wait_seconds) = Inr 2"
proof -
  have failed: "snd (load_script env js_path) = Some e"
    using assms(3) by (simp only: load_script_failure_cases)
  have failed': "snd (load_script (env\<lparr>detach := d\<rparr>) js_path) = Some e"
    using assms(3) by (simp add: load_script_failure_cases)
  have "count_list (fst (load_script env js_path)) Detach = 0"
    by (rule count_list_0) (rule load_script_no_detach)
  then show ?thesis
    using run_diag_load_failed [OF assms(1,2) failed, of wait_seconds]
      run_diag_load_failed [of "env\<lparr>detach := d\<rparr>" js_path process_name e wait_seconds]
      failed' assms(1,2)
    by simp
qed

theorem load_failure_detaches_and_fails_witness:
  "snd (run_diag env_load_fails process_name_default js_path_default (Finite 3)) = Inr 2 \<and>
   fst (run_diag env_load_fails process_name_default js_path_default (Finite 3)) =
     [Attach process_name_default, OpenRead js_path_default,
      CreateScript (wrapped_js (now_isoformat env_ok) sample_script), On, Load,
      Log ERROR [Lit msg_load_failed, FmtExn (OtherException (ascii ''InvalidOperationError''))],
      Detach] \<and>
   detach env_load_fails = Some (OtherException (ascii ''InvalidOperationError'')) \<and>
   run_diag env_unreadable process_name_default js_path_default (Finite 3) =
     ([Attach process_name_default, OpenRead js_path_default,
       Log ERROR [Lit msg_load_failed, FmtExn (OtherException (ascii ''PermissionError''))],
       Detach], Inr 2)"
proof -
  have a: "path_exists env_load_fails js_path_default"
    by (simp add: env_load_fails_def env_ok_def)
  have b: "attach env_load_fails process_name_default = None"
    by (simp add: env_load_fails_def env_ok_def)
  have c: "read_text env_load_fails js_path_default =
             Inl (OtherException (ascii ''InvalidOperationError'')) \<or>
         (\<exists>raw_js. read_text env_load_fails js_path_default = Inr raw_js \<and>
            (create_script env_load_fails (wrapped_js (now_isoformat env_load_fails) raw_js) =
               Some (OtherException (ascii ''InvalidOperationError'')) \<or>
             create_script env_load_fails (wrapped_js (now_isoformat env_load_fails) raw_js) = None \<and>
             (script_on env_load_fails = Some (OtherException (ascii ''InvalidOperationError'')) \<or>
              script_on env_load_fails = None \<and>
              script_load env_load_fails = Some (OtherException (ascii ''InvalidOperationError'')))))"
    by (simp add: env_load_fails_def env_ok_def)
  have l: "fst (load_script env_load_fails js_path_default) =
     [OpenRead js_path_default,
      CreateScript (wrapped_js (now_isoformat env_ok) sample_script), On, Load]"
    by (simp add: load_script_def env_load_fails_def env_ok_def)
  have d: "detach env_load_fails = Some (OtherException (ascii ''InvalidOperationError''))"
    by (simp add: env_load_fails_def env_ok_def)
  have a': "path_exists env_unreadable js_path_default"
    by (simp add: env_unreadable_def env_ok_def)
  have b': "attach env_unreadable process_name_default = None"
    by (simp add: env_unreadable_def env_ok_def)
  have c': "read_text env_unreadable js_path_default =
              Inl (OtherException (ascii ''PermissionError''))"
    by (simp add: env_unreadable_def env_ok_def)
  have l': "fst (load_script env_unreadable js_path_default) = [OpenRead js_path_default]"
    by (simp add: load_script_def c')
  have u: "run_diag env_unreadable process_name_default js_path_default (Finite 3) =
     ([Attach process_name_default, OpenRead js_path_default,
       Log ERROR [Lit msg_load_failed, FmtExn (OtherException (ascii ''PermissionError''))],
       Detach], Inr 2)"
    using load_failure_detaches_and_fails [OF a' b' disjI1 [OF c'], of "Finite 3"] l'
    by (cases "run_diag env_unreadable process_name_default js_path_default (Finite 3)") simp
  from load_failure_detaches_and_fails [OF a b c, of "Finite 3"] l d u
  show ?thesis by simp
qed

text \<open>
  Claim C1, amended. Detach is called exactly once in every run in which attach
  succeeded and either the loading failed or the sleep returned; it is not called at all
  when the script file is missing or attach raised, because no session exists then.
  Whatever detach does (\<open>d\<close>), the result of the run is the one it has when detach
  returns normally.
\<close>

theorem detach_once_per_session:
  "(\<not> path_exists env js_path \<or> attach env process_name \<noteq> None \<longrightarrow>
      count_list (fst (run_diag env process_name js_path wait_seconds)) Detach = 0) \<and>
   (path_exists env js_path \<and> attach env process_name = None \<and>
      (snd (load_script env js_path) \<noteq> None \<or> time_sleep env wait_seconds = None) \<longrightarrow>
      count_list (fst (run_diag env process_name js_path wait_seconds)) Detach = 1) \<and>
   snd (run_diag (env\<lparr>detach := d\<rparr>) process_name js_path wait_seconds) =
     snd (run_diag (env\<lparr>detach := None\<rparr>) process_name js_path wait_seconds)"
proof (intro conjI impI)
  assume "\<not> path_exists env js_path \<or> attach env process_name \<noteq> None"
  then show "count_list (fst (run_diag env process_name js_path wait_seconds)) Detach = 0"
    by (auto simp add: run_diag_def split: sum.splits)
next
  assume a: "path_exists env js_path \<and> attach env process_name = None \<and>
      (snd (load_script env js_path) \<noteq> None \<or> time_sleep env wait_seconds = None)"
  have l0: "count_list (fst (load_script env js_path)) Detach = 0"
    by (rule count_list_0) (rule load_script_no_detach)
  have p0: "count_list (fst (probe_exports env)) Detach = 0"
    by (rule count_list_0) (rule probe_exports_no_detach)
  show "count_list (fst (run_diag env process_name js_path wait_seconds)) Detach = 1"
  proof (cases "snd (load_script env js_path)")
    case (Some e)
    with a l0 show ?thesis
      by (simp add: run_diag_load_failed [of env js_path process_name e])
  next
    case None
    with a have "time_sleep env wait_seconds = None" by simp
    with a None l0 p0 show ?thesis
      by (simp add: run_diag_loaded [of env js_path process_name] Let_def)
  qed
next
  show "snd (run_diag (env\<lparr>detach := d\<rparr>) process_name js_path wait_seconds) =
     snd (run_diag (env\<lparr>detach := None\<rparr>) process_name js_path wait_seconds)"
    by (simp only: run_diag_detach_update)
qed

theorem detach_once_per_session_witness:
  "count_list (fst (run_diag env_attach_denied process_name_default js_path_default (Finite 3))) Detach = 0 \<and>
   count_list (fst (run_diag env_probe_fails process_name_default js_path_default (Finite 3))) Detach = 1 \<and>
   count_list (fst (run_diag env_load_fails process_name_default js_path_default (Finite 3))) Detach = 1 \<and>
   snd (run_diag env_probe_fails process_name_default js_path_default (Finite 3)) =
     snd (run_diag (env_probe_fails\<lparr>detach := None\<rparr>) process_name_default js_path_default (Finite 3))"
proof -
  have a: "\<not> path_exists env_attach_denied js_path_default \<or>
           attach env_attach_denied process_name_default \<noteq> None"
    by (simp add: env_attach_denied_def env_ok_def)
  have b: "path_exists env_probe_fails js_path_default \<and>
           attach env_probe_fails process_name_default = None \<and>
           (snd (load_script env_probe_fails js_path_default) \<noteq> None \<or>
            time_sleep env_probe_fails (Finite 3) = None)"
    by (simp add: time_sleep_sample) (simp add: env_probe_fails_def env_ok_def)
  have c: "path_exists env_load_fails js_path_default \<and>
           attach env_load_fails process_name_default = None \<and>
           (snd (load_script env_load_fails js_path_default) \<noteq> None \<or>
            time_sleep env_load_fails (Finite 3) = None)"
    by (simp add: time_sleep_sample) (simp add: env_load_fails_def env_ok_def)
  have d: "env_probe_fails\<lparr>detach := detach env_probe_fails\<rparr> = env_probe_fails"
    by simp
  note w1 = detach_once_per_session
    [where env = env_attach_denied and js_path = js_path_default
       and process_name = process_name_default and wait_seconds = "Finite 3"]
  note w2 = detach_once_per_session
    [where env = env_probe_fails and js_path = js_path_default
       and process_name = process_name_default and wait_seconds = "Finite 3"
       and d = "detach env_probe_fails"]
  note w3 = detach_once_per_session
    [where env = env_load_fails and js_path = js_path_default
       and process_name = process_name_default and wait_seconds = "Finite 3"]
  have "count_list (fst (run_diag env_attach_denied process_name_default js_path_default (Finite 3))) Detach = 0"
    using w1 a by blast
  moreover have "count_list (fst (run_diag env_probe_fails process_name_default js_path_default (Finite 3))) Detach = 1"
    using w2 b by blast
  moreover have "count_list (fst (run_diag env_load_fails process_name_default js_path_default (Finite 3))) Detach = 1"
    using w3 c by blast
  moreover have "snd (run_diag env_probe_fails process_name_default js_path_default (Finite 3)) =
     snd (run_diag (env_probe_fails\<lparr>detach := None\<rparr>) process_name_default js_path_default (Finite 3))"
    using w2 d by simp
  ultimately show ?thesis by blast
qed

text \<open>
  The claim as stated, detach exactly once in every run, fails in the run where the
  script file is missing: detach is not called.
\<close>

theorem detach_every_run_counterexample:
  "count_list (fst (run_diag env_no_script process_name_default js_path_default (Finite 3))) Detach \<noteq> 1"
  by (simp add: run_diag_def env_no_script_def env_ok_def)

text \<open>
  Claim C9, amended. Whenever the script is loaded and the sleep returns, \<open>run_diag\<close>
  returns exit code 0, and it still does when the three steps of the host-side probe and
  the detach are replaced by any outcomes \<open>p1\<close>, \<open>p2\<close>, \<open>p3\<close> and \<open>d\<close>. What the
  injected code does after it was loaded reaches the host only through the message
  callback and is no input of the run.
\<close>

theorem loaded_script_exits_zero:
  assumes "path_exists env js_path" and "attach env process_name = None"
    and "read_text env js_path = Inr raw_js"
    and "create_script env (wrapped_js (now_isoformat env) raw_js) = None"
    and "script_on env = None" and "script_load env = None"
    and "time_sleep env wait_seconds = None"
  shows "snd (run_diag env process_name js_path wait_seconds) = Inr 0 \<and>
         snd (run_diag (env\<lparr>exports_sync := p1, exports_sync_again := p2,
                              getattr_decrypt := p3, detach := d\<rparr>)
                process_name js_path wait_seconds) = Inr 0"
proof -
  let ?env' = "env\<lparr>exports_sync := p1, exports_sync_again := p2,
                     getattr_decrypt := p3, detach := d\<rparr>"
  have l: "snd (load_script env js_path) = None"
    using assms(3-6) by (simp add: load_script_success_cases)
  have l': "snd (load_script ?env' js_path) = None"
    using assms(3-6) by (simp add: load_script_success_cases)
  have "snd (run_diag env process_name js_path wait_seconds) = Inr 0"
    using run_diag_loaded [OF assms(1,2) l, of wait_seconds] assms(7) by (simp add: Let_def)
  moreover have "snd (run_diag ?env' process_name js_path wait_seconds) = Inr 0"
    using run_diag_loaded [of ?env' js_path process_name wait_seconds] l' assms(1,2,7)
    by (simp add: Let_def)
  ultimately show ?thesis by simp
qed

theorem loaded_script_exits_zero_witness:
  "time_sleep env_ok (Finite 3) = None \<and>
   snd (run_diag env_ok process_name_default js_path_default (Finite 3)) = Inr 0 \<and>
   snd (run_diag env_probe_fails process_name_default js_path_default (Finite 3)) = Inr 0"
proof -
  have s: "time_sleep env_ok (Finite 3) = None"
    by (rule time_sleep_sample)
  have e: "env_ok\<lparr>exports_sync := None, exports_sync_again := None,
             getattr_decrypt := Some (OtherException (ascii ''RPCException'')),
             detach := Some (OtherException (ascii ''InvalidOperationError''))\<rparr> = env_probe_fails"
    by (simp add: env_probe_fails_def env_ok_def)
  have "snd (run_diag env_ok process_name_default js_path_default (Finite 3)) = Inr 0 \<and>
        snd (run_diag (env_ok\<lparr>exports_sync := None, exports_sync_again := None,
             getattr_decrypt := Some (OtherException (ascii ''RPCException'')),
             detach := Some (OtherException (ascii ''InvalidOperationError''))\<rparr>)
          process_name_default js_path_default (Finite 3)) = Inr 0"
    by (rule loaded_script_exits_zero [where raw_js = sample_script])
       (simp_all add: s, simp_all add: env_ok_def)
  then show ?thesis using s by (simp only: e)
qed

text \<open>
  The claim as stated, exit code 0 whenever the load succeeds, fails for a wait of -1
  seconds: the load succeeds and the run ends with a \<^verbatim>\<open>ValueError\<close> instead of an exit
  code.
\<close>

theorem loaded_script_always_zero_counterexample:
  "snd (load_script env_ok js_path_default) = None \<and>
   snd (run_diag env_ok process_name_default js_path_default (Finite (- 1))) = Inl ValueError"
proof -
  have l: "snd (load_script env_ok js_path_default) = None"
    by (simp add: load_script_def env_ok_def)
  have p: "path_exists env_ok js_path_default" "attach env_ok process_name_default = None"
    by (simp_all add: env_ok_def)
  have s: "time_sleep env_ok (Finite (- 1)) = Some ValueError"
    by (rule time_sleep_sample)
  show ?thesis
    using l by (simp add: run_diag_loaded [OF p l] s Let_def)
qed

text \<open>
  Claim C10. Whenever the script is loaded and \<open>wait_seconds\<close> is negative, \<open>run_diag\<close>
  returns no exit status: the exception raised by \<^verbatim>\<open>time.sleep\<close> leaves it, the call of
  sleep is the last event of the run, and detach is never called.
\<close>

theorem negative_wait_raises_before_detach:
  assumes "path_exists env js_path" and "attach env process_name = None"
    and "read_text env js_path = Inr raw_js"
    and "create_script env (wrapped_js (now_isoformat env) raw_js) = None"
    and "script_on env = None" and "script_load env = None"
    and "is_negative wait_seconds"
  shows "(\<exists>e. snd (run_diag env process_name js_path wait_seconds) = Inl e \<and>
              time_sleep env wait_seconds = Some e) \<and>
         last (fst (run_diag env process_name js_path wait_seconds)) = Sleep wait_seconds \<and>
         Detach \<notin> set (fst (run_diag env process_name js_path wait_seconds))"
proof -
  have l: "snd (load_script env js_path) = None"
    using assms(3-6) by (simp add: load_script_success_cases)
  obtain e where e: "time_sleep env wait_seconds = Some e"
    using time_sleep_negative [OF assms(7)] by blast
  have r: "run_diag env process_name js_path wait_seconds =
     ([Attach process_name] @ fst (load_script env js_path) @ fst (probe_exports env) @
      [Log INFO [Lit msg_waiting, FmtFloat wait_seconds, Lit msg_seconds],
       Sleep wait_seconds], Inl e)"
    using run_diag_loaded [OF assms(1,2) l, of wait_seconds] e by (simp add: Let_def)
  show ?thesis
    using e before_sleep_no_detach [of process_name env js_path wait_seconds]
    by (simp add: r)
qed

theorem negative_wait_raises_before_detach_witness:
  "is_negative (Finite (- 2)) \<and>
   snd (run_diag env_ok process_name_default js_path_default (Finite (- 2))) = Inl ValueError \<and>
   last (fst (run_diag env_ok process_name_default js_path_default (Finite (- 2)))) = Sleep (Finite (- 2)) \<and>
   Detach \<notin> set (fst (run_diag env_ok process_name_default js_path_default (Finite (- 2))))"
proof -
  have n: "is_negative (Finite (- 2))"
    by (simp add: is_negative_def)
  have s: "time_sleep env_ok (Finite (- 2)) = Some ValueError"
    by (rule time_sleep_sample)
  have "(\<exists>e. snd (run_diag env_ok process_name_default js_path_default (Finite (- 2))) = Inl e \<and>
              time_sleep env_ok (Finite (- 2)) = Some e) \<and>
         last (fst (run_diag env_ok process_name_default js_path_default (Finite (- 2)))) = Sleep (Finite (- 2)) \<and>
         Detach \<notin> set (fst (run_diag env_ok process_name_default js_path_default (Finite (- 2))))"
    by (rule negative_wait_raises_before_detach [where raw_js = sample_script])
       (simp_all add: env_ok_def n)
  with n s show ?thesis by auto
qed

lemma probe_exports_no_session_calls:
  "filter is_attach (fst (probe_exports env)) = [] \<and>
   filter is_create_script (fst (probe_exports env)) = []"
  by (simp add: probe_exports_def is_attach_def is_create_script_def split: option.splits)

lemma load_script_session_calls:
  "filter is_attach (fst (load_script env js_path)) = [] \<and>
   length (filter is_create_script (fst (load_script env js_path))) \<le> 1"
  by (simp add: load_script_def Let_def is_attach_def is_create_script_def
      split: option.splits sum.splits)

text \<open>
  No run attaches more than once or creates more than one script (section 3 of the
  specification: at most one active session and one injected script per run).
\<close>

theorem one_session_one_script:
  "length (filter is_attach (fst (run_diag env process_name js_path wait_seconds))) \<le> 1 \<and>
   length (filter is_create_script (fst (run_diag env process_name js_path wait_seconds))) \<le> 1"
proof (cases "path_exists env js_path")
  case False
  then show ?thesis
    by (simp add: run_diag_def is_attach_def is_create_script_def split: sum.splits)
next
  case True
  show ?thesis
  proof (cases "attach env process_name")
    case (Some e)
    with True show ?thesis
      by (simp add: run_diag_attach_failed [of env js_path process_name e]
          is_attach_def is_create_script_def)
  next
    case None
    note attached = this
    show ?thesis
    proof (cases "snd (load_script env js_path)")
      case (Some e)
      then show ?thesis
        using load_script_session_calls [of env js_path]
        by (simp add: run_diag_load_failed [OF True attached Some])
           (simp add: is_attach_def is_create_script_def)
    next
      case None
      then show ?thesis
        using load_script_session_calls [of env js_path] probe_exports_no_session_calls [of env]
        by (simp add: run_diag_loaded [OF True attached None] Let_def split: option.splits)
           (simp add: is_attach_def is_create_script_def)
    qed
  qed
qed

theorem one_session_one_script_witness:
  "length (filter is_attach
     (fst (run_diag env_ok process_name_default js_path_default (Finite 3)))) \<le> 1 \<and>
   length (filter is_create_script
     (fst (run_diag env_load_fails process_name_default js_path_default (Finite 3)))) \<le> 1"
  using one_session_one_script [of env_ok process_name_default js_path_default "Finite 3"]
    one_session_one_script [of env_load_fails process_name_default js_path_default "Finite 3"]
  by simp

text \<open>
  The run in which every step succeeds, in full: attach, read the file, create the
  script from the wrapped text (the original text unchanged between the head and the
  tail of the wrapper), register the callback, load, probe, announce the wait, sleep,
  detach, and the closing record; the exit code is 0.
\<close>

theorem successful_run_trace:
  assumes "path_exists env js_path" and "attach env process_name = None"
    and "read_text env js_path = Inr raw_js"
    and "create_script env (wrapped_js (now_isoformat env) raw_js) = None"
    and "script_on env = None" and "script_load env = None"
    and "time_sleep env wait_seconds = None"
  shows "run_diag env process_name js_path wait_seconds =
     ([Attach process_name, OpenRead js_path,
       CreateScript (wrapper_head @ now_isoformat env @ wrapper_middle @ raw_js @ wrapper_tail),
       On, Load] @
      fst (probe_exports env) @
      [Log INFO [Lit msg_waiting, FmtFloat wait_seconds, Lit msg_seconds],
       Sleep wait_seconds, Detach, Log INFO [Lit msg_finished]], Inr 0)"
proof -
  have l: "load_script env js_path =
     ([OpenRead js_path, CreateScript (wrapped_js (now_isoformat env) raw_js), On, Load], None)"
    using assms(3-6) by (simp add: load_script_def)
  then have "snd (load_script env js_path) = None" by simp
  from run_diag_loaded [OF assms(1,2) this, of wait_seconds] assms(7) l
  show ?thesis by (simp add: Let_def wrapped_js_def)
qed

theorem successful_run_trace_witness:
  "run_diag env_ok process_name_default js_path_default (Finite 3) =
     ([Attach process_name_default, OpenRead js_path_default,
       CreateScript (wrapper_head @ ascii ''2024-05-01T12:00:00.000000'' @ wrapper_middle @
                     sample_script @ wrapper_tail),
       On, Load, ExportsSync, ExportsSync, GetattrDecrypt, Log INFO [Lit msg_found_decrypt],
       Log INFO [Lit msg_waiting, FmtFloat (Finite 3), Lit msg_seconds],
       Sleep (Finite 3), Detach, Log INFO [Lit msg_finished]], Inr 0)"
proof -
  have s: "time_sleep env_ok (Finite 3) = None"
    by (rule time_sleep_sample)
  have p: "fst (probe_exports env_ok) =
     [ExportsSync, ExportsSync, GetattrDecrypt, Log INFO [Lit msg_found_decrypt]]"
    by (simp add: probe_exports_def env_ok_def)
  have n: "now_isoformat env_ok = ascii ''2024-05-01T12:00:00.000000''"
    by (simp add: env_ok_def)
  have "run_diag env_ok process_name_default js_path_default (Finite 3) =
     ([Attach process_name_default, OpenRead js_path_default,
       CreateScript (wrapper_head @ now_isoformat env_ok @ wrapper_middle @ sample_script @
                     wrapper_tail),
       On, Load] @
      fst (probe_exports env_ok) @
      [Log INFO [Lit msg_waiting, FmtFloat (Finite 3), Lit msg_seconds],
       Sleep (Finite 3), Detach, Log INFO [Lit msg_finished]], Inr 0)"
    by (rule successful_run_trace) (simp_all add: s, simp_all add: env_ok_def)
  then show ?thesis by (simp only: p n append_Cons append_Nil)
qed

subsection \<open>The wrapped script\<close>

text \<open>
  With Frida's own \<^verbatim>\<open>send\<close>, a call of \<^verbatim>\<open>send\<close> sends its argument, or throws what the
  evaluation of the argument threw.
\<close>

lemma call_send_host:
  "host_send w \<Longrightarrow> call_send w s (Inr m) = ([Sent m], None)"
  "host_send w \<Longrightarrow> call_send w s (Inl x) = ([], Some x)"
  by (simp_all add: host_send_def call_send_def)






lemma stage_messages [simp]:
  "stage (boot_message time) = JString ''boot''"
  "stage finished_message = JString ''boot''"
  "stage (exports_message h ks) = JString ''exports''"
  "stage (exports_error_message s) = JString ''exports''"
  "stage (fatal_message error stack) = JString ''fatal''"
  by (simp_all add: stage_def field_def object_literal_def boot_message_def finished_message_def
      exports_message_def exports_error_message_def fatal_message_def)




lemma run_wrapped_return:
  assumes "host_send w" and "body_run w = Return"
  shows "run_wrapped w time = ([Sent (boot_message time), Body], None)"
  by (simp add: run_wrapped_def wrapper_try_def try_catch_def then_run_def assms(2)
      call_send_host [OF assms(1)])






lemma read_data_property:
  "map_of ps p = Some x \<Longrightarrow> read_prop w k (JObject callable ps) p = Inr x"
  by (simp add: read_prop_def)









end
